theory Spec2Isabelle
  imports Main
begin

section \<open>Semantic versions\<close>

text \<open>
  \<^verbatim>\<open>bump.py\<close> handles versions through the class \<^verbatim>\<open>semver.Version\<close> of the
  \<^verbatim>\<open>semver\<close> package, which is imported by the module and is not part of the source tree.
  The definitions of this section stand for that class. Strings are ASCII.
\<close>

record Version =
  major :: nat
  minor :: nat
  patch :: nat
  prerelease :: "string option"
  build :: "string option"

definition is_digit :: "char \<Rightarrow> bool" where
  "is_digit c = (c \<in> set ''0123456789'')"

definition is_ident_char :: "char \<Rightarrow> bool" where
  "is_ident_char c =
     (c \<in> set ''0123456789abcdefghijklmnopqrstuvwxyzABCDEFGHIJKLMNOPQRSTUVWXYZ-'')"

definition digit_val :: "char \<Rightarrow> nat" where
  "digit_val c = of_char c - 48"

definition digit_char :: "nat \<Rightarrow> char" where
  "digit_char n = ''0123456789'' ! (n mod 10)"

text \<open>A numeric component: \<^verbatim>\<open>0|[1-9]\d*\<close>, read in base ten.\<close>

definition parse_numeric :: "string \<Rightarrow> nat option" where
  "parse_numeric s =
     (if s = [] then None
      else if list_all is_digit s then
        (if hd s = CHR ''0'' then (if tl s = [] then Some 0 else None)
         else Some (foldl (\<lambda>a c. 10 * a + digit_val c) 0 s))
      else None)"

text \<open>Python's \<^verbatim>\<open>"%d" % n\<close> for a non-negative integer.\<close>

fun str_nat :: "nat \<Rightarrow> string" where
  "str_nat n = (if n < 10 then [digit_char n] else str_nat (n div 10) @ [digit_char (n mod 10)])"

declare str_nat.simps [simp del]

fun split_on :: "char \<Rightarrow> string \<Rightarrow> string list" where
  "split_on c [] = [[]]"
| "split_on c (x # xs) =
     (if x = c then [] # split_on c xs
      else (case split_on c xs of [] \<Rightarrow> [[x]] | y # ys \<Rightarrow> (x # y) # ys))"

text \<open>A pre-release identifier: \<^verbatim>\<open>0|[1-9]\d*|\d*[a-zA-Z-][0-9a-zA-Z-]*\<close>.\<close>

definition valid_prerelease_ident :: "string \<Rightarrow> bool" where
  "valid_prerelease_ident s =
     (if s = [] then False
      else if list_all is_digit s then (if hd s = CHR ''0'' then tl s = [] else True)
      else list_all is_ident_char s)"

text \<open>A build identifier: \<^verbatim>\<open>[0-9a-zA-Z-]+\<close>.\<close>

definition valid_build_ident :: "string \<Rightarrow> bool" where
  "valid_build_ident s = (if s = [] then False else list_all is_ident_char s)"

definition valid_suffix :: "(string \<Rightarrow> bool) \<Rightarrow> string option \<Rightarrow> bool" where
  "valid_suffix ok suffix =
     (case suffix of None \<Rightarrow> True | Some t \<Rightarrow> list_all ok (split_on CHR ''.'' t))"

text \<open>The part of \<open>s\<close> after the first \<open>c\<close>, when there is one.\<close>

definition after_first :: "char \<Rightarrow> string \<Rightarrow> string option" where
  "after_first c s =
     (case dropWhile (\<lambda>x. x \<noteq> c) s of [] \<Rightarrow> None | _ # rest \<Rightarrow> Some rest)"

text \<open>
  Modelled from the spec: \<^verbatim>\<open>semver.Version.parse\<close> belongs to the \<^verbatim>\<open>semver\<close> package and
  is missing from the source tree. It accepts the strings of the form
  \<^verbatim>\<open>MAJOR.MINOR.PATCH[-PRERELEASE][+BUILD]\<close>; \<open>None\<close> is its \<^verbatim>\<open>ValueError\<close>.
\<close>

definition semver_parse :: "string \<Rightarrow> Version option" where
  "semver_parse s =
     (let front = takeWhile (\<lambda>x. x \<noteq> CHR ''+'') s;
          bld = after_first CHR ''+'' s;
          core = takeWhile (\<lambda>x. x \<noteq> CHR ''-'') front;
          pre = after_first CHR ''-'' front
      in if valid_suffix valid_build_ident bld then
           if valid_suffix valid_prerelease_ident pre then
             (case split_on CHR ''.'' core of
                [a, b, c] \<Rightarrow>
                  (case parse_numeric a of
                     None \<Rightarrow> None
                   | Some ma \<Rightarrow>
                       (case parse_numeric b of
                          None \<Rightarrow> None
                        | Some mi \<Rightarrow>
                            (case parse_numeric c of
                               None \<Rightarrow> None
                             | Some pa \<Rightarrow>
                                 Some \<lparr>major = ma, minor = mi, patch = pa,
                                       prerelease = pre, build = bld\<rparr>)))
              | _ \<Rightarrow> None)
           else None
         else None)"

text \<open>
  Modelled from the spec: \<^verbatim>\<open>str\<close> of a \<^verbatim>\<open>semver.Version\<close>, the string form
  \<^verbatim>\<open>MAJOR.MINOR.PATCH[-PRERELEASE][+BUILD]\<close>.
\<close>

definition version_str :: "Version \<Rightarrow> string" where
  "version_str v =
     str_nat (major v) @ ''.'' @ str_nat (minor v) @ ''.'' @ str_nat (patch v)
     @ (case prerelease v of None \<Rightarrow> [] | Some p \<Rightarrow> ''-'' @ p)
     @ (case build v of None \<Rightarrow> [] | Some b \<Rightarrow> ''+'' @ b)"

text \<open>
  Modelled from the spec: the bump methods of \<^verbatim>\<open>semver.Version\<close>, missing from the source
  tree. Patch: patch + 1. Minor: minor + 1, patch = 0. Major: major + 1, minor = 0,
  patch = 0. Pre-release and build metadata are cleared.
\<close>

definition bump_patch :: "Version \<Rightarrow> Version" where
  "bump_patch v =
     \<lparr>major = major v, minor = minor v, patch = patch v + 1, prerelease = None, build = None\<rparr>"

definition bump_minor :: "Version \<Rightarrow> Version" where
  "bump_minor v =
     \<lparr>major = major v, minor = minor v + 1, patch = 0, prerelease = None, build = None\<rparr>"

definition bump_major :: "Version \<Rightarrow> Version" where
  "bump_major v =
     \<lparr>major = major v + 1, minor = 0, patch = 0, prerelease = None, build = None\<rparr>"

section \<open>The manifest, the prompt and the log\<close>

text \<open>
  \<^verbatim>\<open>bump.py\<close> reads and writes \<^verbatim>\<open>pyproject.toml\<close> through the \<^verbatim>\<open>tomlkit\<close> package and asks
  the user through \<^verbatim>\<open>questionary\<close>. Neither package is part of the source tree, so both are
  parameters of the model. A document of \<^verbatim>\<open>tomlkit\<close> has the type \<open>'d\<close>; \<open>None\<close> stands for
  an exception raised by the call:
  \<^item> \<open>toml_parse\<close> is \<^verbatim>\<open>tomlkit.parse(text)\<close>;
  \<^item> \<open>toml_get_version\<close> is \<^verbatim>\<open>data["project"]["version"]\<close>, a \<^verbatim>\<open>str\<close> by the annotation of
    \<^verbatim>\<open>get_current_version\<close>;
  \<^item> \<open>toml_set_version\<close> is \<^verbatim>\<open>data["project"]["version"] = new_version\<close>;
  \<^item> \<open>toml_dumps\<close> is \<^verbatim>\<open>tomlkit.dumps(data)\<close>.
\<close>

record 'd tomlkit =
  toml_parse :: "string \<Rightarrow> 'd option"
  toml_get_version :: "'d \<Rightarrow> string option"
  toml_set_version :: "'d \<Rightarrow> string \<Rightarrow> 'd option"
  toml_dumps :: "'d \<Rightarrow> string option"

text \<open>
  \<^verbatim>\<open>questionary.select(message, choices).ask()\<close>: the chosen string, or \<open>None\<close> when the
  user cancels.
\<close>

type_synonym prompt = "string \<Rightarrow> string list \<Rightarrow> string option"

text \<open>The calls of \<^verbatim>\<open>logger.error\<close> and \<^verbatim>\<open>logger.info\<close>, one constructor for each call site.\<close>

datatype error_message =
    ReadFailed
  | UpdateFailed
  | NotFound
  | InvalidCurrent string
  | InvalidFormat string
  | UseValidSemver
  | UpdateMismatch string string

datatype info_message =
    CurrentVersion string
  | BumpingUsing string
  | NewVersionWillBe string
  | DryRunEnabled
  | Updating
  | LockfileHint

text \<open>
  What an invocation does to the outside, in order: opening the manifest for reading or for
  writing, asking the user, and logging.
\<close>

datatype event =
    OpenRead
  | OpenWrite
  | Prompt string "string list"
  | Error error_message
  | Info info_message
  | Success string string

text \<open>
  The state threaded through an invocation: the text of \<^verbatim>\<open>pyproject.toml\<close> (\<open>None\<close> when
  the file does not exist; a file that exists can be read and written) and the events so
  far.
\<close>

record world =
  content :: "string option"
  trace :: "event list"

definition emit :: "event \<Rightarrow> world \<Rightarrow> world" where
  "emit e w = w\<lparr>trace := trace w @ [e]\<rparr>"

text \<open>\<^verbatim>\<open>raise typer.Exit(code=...)\<close>.\<close>

datatype exit = Exit int

section \<open>The functions of bump.py\<close>

text \<open>
  \<^verbatim>\<open>get_current_version\<close>: whatever is raised while opening, parsing or indexing is logged
  and becomes \<^verbatim>\<open>typer.Exit(code=1)\<close>.
\<close>

definition get_current_version :: "'d tomlkit \<Rightarrow> world \<Rightarrow> world \<times> (exit + string)" where
  "get_current_version tk w =
     (let w1 = emit OpenRead w;
          failed = (emit (Error ReadFailed) w1, Inl (Exit 1))
      in case content w of
           None \<Rightarrow> failed
         | Some body \<Rightarrow>
             (case toml_parse tk body of
                None \<Rightarrow> failed
              | Some data \<Rightarrow>
                  (case toml_get_version tk data of
                     None \<Rightarrow> failed
                   | Some v \<Rightarrow> (w1, Inr v))))"

text \<open>
  \<^verbatim>\<open>update_version\<close>: the file is read and parsed, the version field is assigned, and the
  file is opened for writing, which truncates it, before \<^verbatim>\<open>tomlkit.dumps(data)\<close> is
  evaluated and written.
\<close>

definition update_version :: "'d tomlkit \<Rightarrow> string \<Rightarrow> world \<Rightarrow> world \<times> (exit + unit)" where
  "update_version tk new_version w =
     (let w1 = emit OpenRead w
      in case content w of
           None \<Rightarrow> (emit (Error UpdateFailed) w1, Inl (Exit 1))
         | Some body \<Rightarrow>
             (case toml_parse tk body of
                None \<Rightarrow> (emit (Error UpdateFailed) w1, Inl (Exit 1))
              | Some data \<Rightarrow>
                  (case toml_set_version tk data new_version of
                     None \<Rightarrow> (emit (Error UpdateFailed) w1, Inl (Exit 1))
                   | Some data' \<Rightarrow>
                       (let w2 = emit OpenWrite (w1\<lparr>content := Some []\<rparr>)
                        in case toml_dumps tk data' of
                             None \<Rightarrow> (emit (Error UpdateFailed) w2, Inl (Exit 1))
                           | Some out \<Rightarrow> (w2\<lparr>content := Some out\<rparr>, Inr ())))))"

definition startswith :: "string \<Rightarrow> string \<Rightarrow> bool" where
  "startswith s p = (take (length p) s = p)"

text \<open>The message and the three choices of the prompt, lines 70 to 80.\<close>

definition select_message :: "string \<Rightarrow> string" where
  "select_message current_version_str =
     ''Select bump type (Current: '' @ current_version_str @ '')''"

definition select_choices :: "string \<Rightarrow> Version \<Rightarrow> string list" where
  "select_choices current_version_str current_version =
     (let next_patch = bump_patch current_version;
          next_minor = bump_minor current_version;
          next_major = bump_major current_version
      in [''Patch ('' @ current_version_str @ '' -> '' @ version_str next_patch @ '')'',
          ''Minor ('' @ current_version_str @ '' -> '' @ version_str next_minor @ '')'',
          ''Major ('' @ current_version_str @ '' -> '' @ version_str next_major @ '')''])"

text \<open>
  Lines 55 to 91 of \<^verbatim>\<open>bump_command\<close>: the pair \<^verbatim>\<open>(bump_type, new_version_str)\<close> chosen from
  the argument or from the prompt. \<^verbatim>\<open>if version:\<close> is false for \<^verbatim>\<open>None\<close> and for the empty
  string, and \<^verbatim>\<open>if not choice:\<close> is true for both.
\<close>

definition select_target ::
  "prompt \<Rightarrow> string option \<Rightarrow> string \<Rightarrow> Version \<Rightarrow> world \<Rightarrow> world \<times> (exit + string \<times> string)"
where
  "select_target ask version current_version_str current_version w =
     (let arg = (case version of None \<Rightarrow> [] | Some v \<Rightarrow> v)
      in if arg \<noteq> [] then
           (if arg \<in> set [''patch'', ''minor'', ''major''] then (w, Inr (arg, []))
            else (w, Inr ([], if startswith arg ''v'' then drop 1 arg else arg)))
         else
           (let message = select_message current_version_str;
                choices = select_choices current_version_str current_version;
                w1 = emit (Prompt message choices) w;
                choice = (case ask message choices of None \<Rightarrow> [] | Some c \<Rightarrow> c)
            in if choice = [] then (w1, Inl (Exit 0))
               else if startswith choice ''Patch'' then (w1, Inr (''patch'', []))
               else if startswith choice ''Minor'' then (w1, Inr (''minor'', []))
               else if startswith choice ''Major'' then (w1, Inr (''major'', []))
               else (w1, Inr ([], []))))"

text \<open>
  Lines 93 to 109 of \<^verbatim>\<open>bump_command\<close>: the new version string, computed from the current
  version for a bump type, validated for an explicit version.
\<close>

definition compute_next ::
  "Version \<Rightarrow> string \<Rightarrow> string \<Rightarrow> world \<Rightarrow> world \<times> (exit + string)"
where
  "compute_next current_version bump_type new_version_str w =
     (if bump_type \<noteq> [] then
        (let w1 = emit (Info (BumpingUsing bump_type)) w
         in if bump_type = ''patch'' then (w1, Inr (version_str (bump_patch current_version)))
            else if bump_type = ''minor'' then
              (w1, Inr (version_str (bump_minor current_version)))
            else if bump_type = ''major'' then
              (w1, Inr (version_str (bump_major current_version)))
            else (w1, Inr new_version_str))
      else
        (case semver_parse new_version_str of
           None \<Rightarrow>
             (emit (Error UseValidSemver) (emit (Error (InvalidFormat new_version_str)) w),
              Inl (Exit 1))
         | Some _ \<Rightarrow> (w, Inr new_version_str)))"

text \<open>
  Lines 111 to 128 of \<^verbatim>\<open>bump_command\<close>: the dry-run return, or the write followed by the
  re-read and the comparison.
\<close>

definition apply_version ::
  "'d tomlkit \<Rightarrow> string \<Rightarrow> string \<Rightarrow> bool \<Rightarrow> world \<Rightarrow> world \<times> (exit + unit)"
where
  "apply_version tk current_version_str new_version_str dry_run w =
     (let w1 = emit (Info (NewVersionWillBe new_version_str)) w
      in if dry_run then (emit (Info DryRunEnabled) w1, Inr ())
         else
           (case update_version tk new_version_str (emit (Info Updating) w1) of
              (w2, Inl e) \<Rightarrow> (w2, Inl e)
            | (w2, Inr _) \<Rightarrow>
                (case get_current_version tk w2 of
                   (w3, Inl e) \<Rightarrow> (w3, Inl e)
                 | (w3, Inr updated_version) \<Rightarrow>
                     (if updated_version \<noteq> new_version_str then
                        (emit (Error (UpdateMismatch new_version_str updated_version)) w3,
                         Inl (Exit 1))
                      else
                        (emit (Info LockfileHint)
                           (emit (Success current_version_str new_version_str) w3),
                         Inr ())))))"

text \<open>
  \<^verbatim>\<open>bump_command(version, dry_run)\<close>, run where \<^verbatim>\<open>pyproject.toml\<close> has the content \<open>fs\<close>.
  The result is the final state and either the exit raised or the normal return.
\<close>

definition bump_command ::
  "'d tomlkit \<Rightarrow> prompt \<Rightarrow> string option \<Rightarrow> bool \<Rightarrow> string option \<Rightarrow> world \<times> (exit + unit)"
where
  "bump_command tk ask version dry_run fs =
     (let w0 = \<lparr>content = fs, trace = []\<rparr>
      in if fs = None then (emit (Error NotFound) w0, Inl (Exit 1))
         else
           (case get_current_version tk w0 of
              (w1, Inl e) \<Rightarrow> (w1, Inl e)
            | (w1, Inr current_version_str) \<Rightarrow>
                (case semver_parse current_version_str of
                   None \<Rightarrow> (emit (Error (InvalidCurrent current_version_str)) w1, Inl (Exit 1))
                 | Some current_version \<Rightarrow>
                     (case select_target ask version current_version_str current_version
                             (emit (Info (CurrentVersion current_version_str)) w1) of
                        (w2, Inl e) \<Rightarrow> (w2, Inl e)
                      | (w2, Inr (bump_type, new_version_str)) \<Rightarrow>
                          (case compute_next current_version bump_type new_version_str w2 of
                             (w3, Inl e) \<Rightarrow> (w3, Inl e)
                           | (w3, Inr new_version) \<Rightarrow>
                               apply_version tk current_version_str new_version dry_run w3)))))"

text \<open>The exit status of the process: 0 after a normal return, the code of the exit otherwise.\<close>

fun exit_status :: "exit + unit \<Rightarrow> int" where
  "exit_status (Inl (Exit c)) = c"
| "exit_status (Inr _) = 0"

text \<open>
  A stand-in for \<^verbatim>\<open>tomlkit\<close> on which the definitions can be evaluated: a manifest is a list of
  lines, the version is the text between the quotes of the first line that starts with
  \<^verbatim>\<open>version = "\<close>, and assigning it rewrites that line alone.
\<close>

definition join_lines :: "string list \<Rightarrow> string" where
  "join_lines ls = concat (map (\<lambda>l. l @ [CHR 0x0A]) ls)"

definition version_key :: string where
  "version_key = ''version = '' @ [CHR 0x22]"

fun line_get_version :: "string list \<Rightarrow> string option" where
  "line_get_version [] = None"
| "line_get_version (l # ls) =
     (if startswith l version_key
      then Some (takeWhile (\<lambda>c. c \<noteq> CHR 0x22) (drop (length version_key) l))
      else line_get_version ls)"

fun line_set_version :: "string list \<Rightarrow> string \<Rightarrow> string list option" where
  "line_set_version [] v = None"
| "line_set_version (l # ls) v =
     (if startswith l version_key then Some ((version_key @ v @ [CHR 0x22]) # ls)
      else map_option ((#) l) (line_set_version ls v))"

definition line_toml :: "string list tomlkit" where
  "line_toml =
     \<lparr>toml_parse = (\<lambda>body. Some (butlast (split_on (CHR 0x0A) body))),
      toml_get_version = line_get_version,
      toml_set_version = line_set_version,
      toml_dumps = (\<lambda>d. Some (join_lines d))\<rparr>"

definition manifest :: "string \<Rightarrow> string" where
  "manifest v =
     join_lines [''[project]'', ''name = '' @ [CHR 0x22] @ ''demo'' @ [CHR 0x22],
                 version_key @ v @ [CHR 0x22]]"

section \<open>Decimal numerals and the version grammar\<close>

lemma is_digit_digit_char: "n < 10 \<Longrightarrow> is_digit (digit_char n)"
proof -
  assume "n < 10"
  then have "n \<in> {0,1,2,3,4,5,6,7,8,9}" by auto
  then show ?thesis by (auto simp: is_digit_def digit_char_def)
qed

lemma digit_val_digit_char: "n < 10 \<Longrightarrow> digit_val (digit_char n) = n"
proof -
  assume "n < 10"
  then have "n \<in> {0,1,2,3,4,5,6,7,8,9}" by auto
  then show ?thesis by (auto simp: digit_val_def digit_char_def)
qed

lemma digit_char_eq_zero: "n < 10 \<Longrightarrow> digit_char n = CHR ''0'' \<longleftrightarrow> n = 0"
proof -
  assume "n < 10"
  then have "n \<in> {0,1,2,3,4,5,6,7,8,9}" by auto
  then show ?thesis by (auto simp: digit_char_def)
qed

lemma str_nat_digits: "list_all is_digit (str_nat n)"
  by (induction n rule: str_nat.induct) (subst str_nat.simps, simp add: is_digit_digit_char)

lemma str_nat_nonempty: "str_nat n \<noteq> []"
  by (subst str_nat.simps) simp

lemma str_nat_value: "foldl (\<lambda>a c. 10 * a + digit_val c) 0 (str_nat n) = n"
  by (induction n rule: str_nat.induct) (subst str_nat.simps, simp add: digit_val_digit_char)

lemma str_nat_hd: "hd (str_nat n) = CHR ''0'' \<longleftrightarrow> n = 0"
proof (induction n rule: str_nat.induct)
  case (1 n)
  show ?case
  proof (cases "n < 10")
    case True
    then show ?thesis by (subst str_nat.simps) (simp add: digit_char_eq_zero)
  next
    case False
    then have "hd (str_nat n) = hd (str_nat (n div 10))"
      by (subst str_nat.simps) (simp add: str_nat_nonempty)
    with False 1 show ?thesis by auto
  qed
qed

lemma str_nat_zero: "str_nat 0 = ''0''"
  by (subst str_nat.simps) (simp add: digit_char_def)

lemma parse_numeric_str_nat: "parse_numeric (str_nat n) = Some n"
proof (cases "n = 0")
  case True
  then show ?thesis by (simp add: str_nat_zero parse_numeric_def is_digit_def)
next
  case False
  then show ?thesis
    by (simp add: parse_numeric_def str_nat_nonempty str_nat_digits str_nat_hd str_nat_value)
qed

lemma split_on_no_sep: "c \<notin> set a \<Longrightarrow> split_on c a = [a]"
  by (induction a) auto

lemma split_on_append: "c \<notin> set a \<Longrightarrow> split_on c (a @ c # rest) = a # split_on c rest"
  by (induction a) auto

lemma split_on_nonempty: "split_on c xs \<noteq> []"
  by (induction xs) (auto split: list.splits)

lemma split_on_hd: "split_on c xs = a # rest \<Longrightarrow> a \<noteq> [] \<Longrightarrow> xs \<noteq> [] \<and> hd xs = hd a"
  by (cases xs) (auto split: if_splits list.splits)

lemma str_nat_no_sep: "\<not> is_digit c \<Longrightarrow> c \<notin> set (str_nat n)"
  using str_nat_digits [of n] by (auto simp: list_all_iff)

lemma not_digit_seps: "\<not> is_digit CHR ''.''" "\<not> is_digit CHR ''+''" "\<not> is_digit CHR ''-''"
  by (simp_all add: is_digit_def)

lemma after_first_absent: "c \<notin> set s \<Longrightarrow> after_first c s = None"
  by (induction s) (auto simp: after_first_def)

lemma takeWhile_absent: "c \<notin> set s \<Longrightarrow> takeWhile (\<lambda>x. x \<noteq> c) s = s"
  by (induction s) auto

lemma semver_parse_version_str:
  "semver_parse (version_str \<lparr>major = a, minor = b, patch = c, prerelease = None, build = None\<rparr>)
     = Some \<lparr>major = a, minor = b, patch = c, prerelease = None, build = None\<rparr>"
proof -
  let ?s = "str_nat a @ CHR ''.'' # str_nat b @ CHR ''.'' # str_nat c"
  have plus: "CHR ''+'' \<notin> set ?s" and minus: "CHR ''-'' \<notin> set ?s"
    by (simp_all add: str_nat_no_sep not_digit_seps)
  have dots: "split_on CHR ''.'' ?s = [str_nat a, str_nat b, str_nat c]"
    by (simp add: split_on_append split_on_no_sep str_nat_no_sep not_digit_seps)
  have s: "version_str \<lparr>major = a, minor = b, patch = c, prerelease = None, build = None\<rparr> = ?s"
    by (simp add: version_str_def)
  show ?thesis
    unfolding s semver_parse_def Let_def
    by (simp only: takeWhile_absent [OF plus] after_first_absent [OF plus]
          takeWhile_absent [OF minus] after_first_absent [OF minus] dots)
       (simp add: valid_suffix_def parse_numeric_str_nat)
qed

lemma parse_numeric_hd: "parse_numeric a = Some n \<Longrightarrow> a \<noteq> [] \<and> is_digit (hd a)"
  by (cases a) (auto simp: parse_numeric_def split: if_splits)

lemma hd_takeWhile: "takeWhile P s \<noteq> [] \<Longrightarrow> s \<noteq> [] \<and> hd (takeWhile P s) = hd s"
  by (cases s) (auto split: if_splits)

lemma semver_parse_hd: 
  assumes "semver_parse s = Some v"
  shows "s \<noteq> [] \<and> is_digit (hd s)"
proof -
  let ?front = "takeWhile (\<lambda>x. x \<noteq> CHR ''+'') s"
  let ?core = "takeWhile (\<lambda>x. x \<noteq> CHR ''-'') ?front"
  from assms obtain a rest n where sp: "split_on CHR ''.'' ?core = a # rest" and pn: "parse_numeric a = Some n"
    by (auto simp: semver_parse_def Let_def split: if_splits list.splits option.splits)
  from pn have a: "a \<noteq> []" "is_digit (hd a)" using parse_numeric_hd by blast+
  from split_on_hd [OF sp a(1)] have c: "?core \<noteq> []" "hd ?core = hd a" by simp_all
  from hd_takeWhile [OF c(1)] have f: "?front \<noteq> []" "hd ?core = hd ?front" by simp_all
  from hd_takeWhile [OF f(1)] have "s \<noteq> []" "hd ?front = hd s" by simp_all
  with a c f show ?thesis by simp
qed

section \<open>The steps of the command\<close>

lemma get_current_version_Inr:
  assumes "snd (get_current_version tk w) = Inr s"
  shows "get_current_version tk w = (emit OpenRead w, Inr s)" and "content w \<noteq> None"
  using assms by (auto simp: get_current_version_def Let_def split: option.splits)

lemma get_current_version_Inl:
  assumes "snd (get_current_version tk w) = Inl e"
  shows "get_current_version tk w = (emit (Error ReadFailed) (emit OpenRead w), Inl (Exit 1))"
  using assms by (auto simp: get_current_version_def Let_def split: option.splits)

lemma get_current_version_content:
  "content w = content w' \<Longrightarrow> snd (get_current_version tk w) = snd (get_current_version tk w')"
  by (simp add: get_current_version_def Let_def split: option.splits)

lemma select_target_world:
  "select_target ask version cur v w = (w', r) \<Longrightarrow>
     w' = w \<or> w' = emit (Prompt (select_message cur) (select_choices cur v)) w"
  by (auto simp: select_target_def Let_def split: if_splits)

lemma compute_next_Inr:
  "compute_next v bump_type s w = (w', Inr new) \<Longrightarrow>
     w' = (if bump_type \<noteq> [] then emit (Info (BumpingUsing bump_type)) w else w)"
  by (auto simp: compute_next_def Let_def split: if_splits option.splits)

lemma compute_next_Inl:
  "compute_next v bump_type s w = (w', Inl e) \<Longrightarrow>
     bump_type = [] \<and> semver_parse s = None \<and> e = Exit 1 \<and>
     w' = emit (Error UseValidSemver) (emit (Error (InvalidFormat s)) w)"
  by (auto simp: compute_next_def Let_def split: if_splits option.splits)

lemma update_version_Inr:
  assumes "update_version tk new w = (w', Inr u)"
  shows "\<exists>body d d' out. content w = Some body \<and> toml_parse tk body = Some d \<and>
           toml_set_version tk d new = Some d' \<and> toml_dumps tk d' = Some out \<and>
           w' = \<lparr>content = Some out, trace = trace w @ [OpenRead, OpenWrite]\<rparr>"
  using assms by (cases w) (auto simp: update_version_def emit_def Let_def split: option.splits)

lemma update_version_Inl:
  assumes "update_version tk new w = (w', Inl e)"
  shows "e = Exit 1 \<and> (\<exists>t. trace w' = t @ [Error UpdateFailed])
         \<and> (content w' = content w \<or> content w' = Some [] \<and> OpenWrite \<in> set (trace w'))"
  using assms by (cases w) (auto simp: update_version_def emit_def Let_def split: option.splits)

lemma apply_version_dry_run:
  "apply_version tk cur new True w =
     (emit (Info DryRunEnabled) (emit (Info (NewVersionWillBe new)) w), Inr ())"
  by (simp add: apply_version_def)

lemma apply_version_success:
  assumes "apply_version tk cur new False w0 = (w, Inr u)"
  shows "snd (get_current_version tk w) = Inr new"
    and "trace w = trace w0 @ [Info (NewVersionWillBe new), Info Updating, OpenRead, OpenWrite,
                               OpenRead, Success cur new, Info LockfileHint]"
    and "\<exists>body d d'. content w0 = Some body \<and> toml_parse tk body = Some d \<and>
           toml_set_version tk d new = Some d' \<and> toml_dumps tk d' = content w"
proof -
  let ?w1 = "emit (Info Updating) (emit (Info (NewVersionWillBe new)) w0)"
  from assms obtain w2 where upd: "update_version tk new ?w1 = (w2, Inr ())"
    by (auto simp: apply_version_def Let_def split: prod.splits sum.splits if_splits)
  from assms upd obtain w3 where rd: "get_current_version tk w2 = (w3, Inr new)"
    and w: "w = emit (Info LockfileHint) (emit (Success cur new) w3)"
    by (auto simp: apply_version_def Let_def split: prod.splits sum.splits if_splits)
  from rd have w3: "w3 = emit OpenRead w2"
    using get_current_version_Inr(1) [of tk w2 new] by simp
  from update_version_Inr [OF upd] obtain body d d' out where
    parts: "content ?w1 = Some body" "toml_parse tk body = Some d"
      "toml_set_version tk d new = Some d'" "toml_dumps tk d' = Some out"
    and w2: "w2 = \<lparr>content = Some out, trace = trace ?w1 @ [OpenRead, OpenWrite]\<rparr>"
    by blast
  have "content w = content w2" by (simp add: w w3 emit_def)
  then have "snd (get_current_version tk w) = snd (get_current_version tk w2)"
    by (rule get_current_version_content)
  with rd show "snd (get_current_version tk w) = Inr new" by simp
  show "trace w = trace w0 @ [Info (NewVersionWillBe new), Info Updating, OpenRead, OpenWrite,
                               OpenRead, Success cur new, Info LockfileHint]"
    by (simp add: w w3 w2 emit_def)
  from parts show "\<exists>body d d'. content w0 = Some body \<and> toml_parse tk body = Some d \<and>
           toml_set_version tk d new = Some d' \<and> toml_dumps tk d' = content w"
    by (auto simp: w w3 w2 emit_def)
qed

lemma select_target_Inr:
  "select_target ask version cur v w = (w', Inr (bt, ns)) \<Longrightarrow>
     bt \<in> set [''patch'', ''minor'', ''major'', []]"
  by (auto simp: select_target_def Let_def split: if_splits)

lemma compute_next_valid:
  assumes "bt \<in> set [''patch'', ''minor'', ''major'', []]"
    and "compute_next v bt ns w = (w', Inr new)"
  shows "semver_parse new \<noteq> None"
  using assms
  by (auto simp: compute_next_def Let_def bump_patch_def bump_minor_def bump_major_def
        semver_parse_version_str split: option.splits)

lemma bump_command_reaches_apply:
  assumes "bump_command tk ask version dry_run fs = (w, Inr u)"
  shows "\<exists>cur new w3. content w3 = fs \<and> OpenWrite \<notin> set (trace w3) \<and> semver_parse new \<noteq> None \<and>
           apply_version tk cur new dry_run w3 = (w, Inr u)"
proof (cases fs)
  case None
  with assms show ?thesis by (simp add: bump_command_def)
next
  case (Some body)
  from assms Some obtain w1 cur where rd: "get_current_version tk \<lparr>content = fs, trace = []\<rparr> = (w1, Inr cur)"
    by (auto simp: bump_command_def Let_def split: prod.splits sum.splits)
  then have w1: "w1 = emit OpenRead \<lparr>content = fs, trace = []\<rparr>"
    using get_current_version_Inr(1) [of tk "\<lparr>content = fs, trace = []\<rparr>" cur] by simp
  from assms Some rd obtain v where v: "semver_parse cur = Some v"
    by (auto simp: bump_command_def Let_def split: prod.splits sum.splits option.splits)
  let ?w1' = "emit (Info (CurrentVersion cur)) w1"
  from assms Some rd v obtain w2 bt ns where
    sel: "select_target ask version cur v ?w1' = (w2, Inr (bt, ns))"
    by (auto simp: bump_command_def Let_def split: prod.splits sum.splits)
  from assms Some rd v sel obtain w3 new where
    cn: "compute_next v bt ns w2 = (w3, Inr new)"
    and ap: "apply_version tk cur new dry_run w3 = (w, Inr u)"
    by (auto simp: bump_command_def Let_def split: prod.splits sum.splits)
  from select_target_world [OF sel] have w2: "content w2 = fs" "OpenWrite \<notin> set (trace w2)"
    by (auto simp: w1 emit_def)
  from compute_next_Inr [OF cn] w2 have w3: "content w3 = fs" "OpenWrite \<notin> set (trace w3)"
    by (auto simp: emit_def)
  have "semver_parse new \<noteq> None"
    using compute_next_valid [OF select_target_Inr [OF sel] cn] .
  with w3 ap show ?thesis by blast
qed

lemma select_target_Inl:
  "select_target ask version cur v w = (w', Inl e) \<Longrightarrow>
     e = Exit 0 \<and> w' = emit (Prompt (select_message cur) (select_choices cur v)) w"
  by (auto simp: select_target_def Let_def split: if_splits)

lemma bump_command_before_apply:
  assumes run: "bump_command tk ask version dry_run fs = (w, r)"
  shows "(\<exists>t. w = \<lparr>content = fs, trace = t\<rparr> \<and> OpenWrite \<notin> set t \<and>
            (r = Inl (Exit 1) \<and> (\<exists>t' m. t = t' @ [Error m])
             \<or> r = Inl (Exit 0) \<and> (\<forall>m. Error m \<notin> set t) \<and> (\<exists>t' p c. t = t' @ [Prompt p c])))
       \<or> (\<exists>cur new w3. content w3 = fs \<and> OpenWrite \<notin> set (trace w3) \<and>
            (\<forall>m. Error m \<notin> set (trace w3)) \<and> semver_parse new \<noteq> None \<and>
            apply_version tk cur new dry_run w3 = (w, r))"
proof (cases fs)
  case None
  with run have "w = \<lparr>content = fs, trace = [Error NotFound]\<rparr>" "r = Inl (Exit 1)"
    by (simp_all add: bump_command_def emit_def)
  then show ?thesis by auto
next
  case (Some body)
  let ?w0 = "\<lparr>content = fs, trace = []\<rparr>"
  obtain w1 r1 where g: "get_current_version tk ?w0 = (w1, r1)" by (cases "get_current_version tk ?w0")
  show ?thesis
  proof (cases r1)
    case (Inl e)
    with g have "get_current_version tk ?w0 = (emit (Error ReadFailed) (emit OpenRead ?w0), Inl (Exit 1))"
      using get_current_version_Inl [of tk ?w0 e] by simp
    with run Some have "w = \<lparr>content = fs, trace = [OpenRead, Error ReadFailed]\<rparr>" "r = Inl (Exit 1)"
      by (simp_all add: bump_command_def emit_def)
    then show ?thesis by auto
  next
    case (Inr cur)
    with g have g': "get_current_version tk ?w0 = (emit OpenRead ?w0, Inr cur)"
      using get_current_version_Inr(1) [of tk ?w0 cur] by simp
    show ?thesis
    proof (cases "semver_parse cur")
      case None
      with run Some g' have "w = \<lparr>content = fs, trace = [OpenRead, Error (InvalidCurrent cur)]\<rparr>"
        "r = Inl (Exit 1)"
        by (simp_all add: bump_command_def emit_def)
      then show ?thesis by auto
    next
      case (Some v)
      let ?w1 = "emit (Info (CurrentVersion cur)) (emit OpenRead ?w0)"
      obtain w2 r2 where st: "select_target ask version cur v ?w1 = (w2, r2)"
        by (cases "select_target ask version cur v ?w1")
      from select_target_world [OF st]
      have w2: "content w2 = fs" "OpenWrite \<notin> set (trace w2)" "\<forall>m. Error m \<notin> set (trace w2)"
        by (auto simp: emit_def)
      show ?thesis
      proof (cases r2)
        case (Inl e)
        with st select_target_Inl [of ask version cur v ?w1 w2 e]
        have e: "e = Exit 0" and "w2 = emit (Prompt (select_message cur) (select_choices cur v)) ?w1"
          by simp_all
        moreover from run \<open>fs = Some body\<close> g' Some st Inl have "w = w2" "r = Inl e"
          by (simp_all add: bump_command_def)
        ultimately have "w = \<lparr>content = fs, trace = [OpenRead, Info (CurrentVersion cur),
            Prompt (select_message cur) (select_choices cur v)]\<rparr>" "r = Inl (Exit 0)"
          by (simp_all add: emit_def)
        then show ?thesis by auto
      next
        case (Inr target)
        obtain bt ns where target: "target = (bt, ns)" by (cases target)
        obtain w3 r3 where cn: "compute_next v bt ns w2 = (w3, r3)"
          by (cases "compute_next v bt ns w2")
        from st Inr target have st': "select_target ask version cur v ?w1 = (w2, Inr (bt, ns))"
          by simp
        show ?thesis
        proof (cases r3)
          case (Inl e)
          with cn compute_next_Inl [of v bt ns w2 w3 e]
          have "e = Exit 1" "w3 = emit (Error UseValidSemver) (emit (Error (InvalidFormat ns)) w2)"
            by simp_all
          moreover from run \<open>fs = Some body\<close> g' Some st' cn Inl have "w = w3" "r = Inl e"
            by (simp_all add: bump_command_def)
          ultimately have "w = \<lparr>content = fs, trace = trace w2 @ [Error (InvalidFormat ns), Error UseValidSemver]\<rparr>"
            "r = Inl (Exit 1)"
            using w2(1) by (simp_all add: emit_def)
          with w2 show ?thesis by auto
        next
          case (Inr new)
          with cn have cn': "compute_next v bt ns w2 = (w3, Inr new)" by simp
          from compute_next_Inr [OF cn'] w2
          have w3: "content w3 = fs" "OpenWrite \<notin> set (trace w3)" "\<forall>m. Error m \<notin> set (trace w3)"
            by (auto simp: emit_def)
          have valid: "semver_parse new \<noteq> None"
            using compute_next_valid [OF select_target_Inr [OF st'] cn'] .
          from run \<open>fs = Some body\<close> g' Some st' cn'
          have "apply_version tk cur new dry_run w3 = (w, r)"
            by (simp add: bump_command_def)
          with w3 valid show ?thesis by blast
        qed
      qed
    qed
  qed
qed

lemma select_target_argument:
  assumes "s \<noteq> []"
  shows "select_target ask (Some s) cur v w =
     (w, Inr (if s \<in> set [''patch'', ''minor'', ''major''] then (s, [])
              else ([], if startswith s ''v'' then drop 1 s else s)))"
  using assms by (simp add: select_target_def)

lemma bump_command_current:
  assumes "snd (get_current_version tk \<lparr>content = fs, trace = []\<rparr>) = Inr cur"
    and "semver_parse cur = Some v"
  shows "bump_command tk ask version dry_run fs =
     (case select_target ask version cur v
             \<lparr>content = fs, trace = [OpenRead, Info (CurrentVersion cur)]\<rparr> of
        (w2, Inl e) \<Rightarrow> (w2, Inl e)
      | (w2, Inr (bump_type, new_version_str)) \<Rightarrow>
          (case compute_next v bump_type new_version_str w2 of
             (w3, Inl e) \<Rightarrow> (w3, Inl e)
           | (w3, Inr new_version) \<Rightarrow> apply_version tk cur new_version dry_run w3))"
  using get_current_version_Inr [OF assms(1)] assms(2)
  by (auto simp: bump_command_def emit_def)

lemma bump_command_explicit:
  assumes "snd (get_current_version tk \<lparr>content = fs, trace = []\<rparr>) = Inr cur"
    and "semver_parse cur = Some v"
    and "s \<noteq> []" and "s \<notin> set [''patch'', ''minor'', ''major'']"
  shows "bump_command tk ask (Some s) dry_run fs =
     (case semver_parse (if startswith s ''v'' then drop 1 s else s) of
        None \<Rightarrow>
          (\<lparr>content = fs,
            trace = [OpenRead, Info (CurrentVersion cur),
                     Error (InvalidFormat (if startswith s ''v'' then drop 1 s else s)),
                     Error UseValidSemver]\<rparr>,
           Inl (Exit 1))
      | Some _ \<Rightarrow>
          apply_version tk cur (if startswith s ''v'' then drop 1 s else s) dry_run
            \<lparr>content = fs, trace = [OpenRead, Info (CurrentVersion cur)]\<rparr>)"
  using assms(3,4)
  by (simp add: bump_command_current [OF assms(1,2)] select_target_argument compute_next_def
      emit_def split: option.splits)

lemma bump_command_keyword:
  assumes "snd (get_current_version tk \<lparr>content = fs, trace = []\<rparr>) = Inr cur"
    and "semver_parse cur = Some v"
  shows "bump_command tk ask (Some ''patch'') dry_run fs =
       apply_version tk cur (version_str (bump_patch v)) dry_run
         \<lparr>content = fs,
          trace = [OpenRead, Info (CurrentVersion cur), Info (BumpingUsing ''patch'')]\<rparr>"
    and "bump_command tk ask (Some ''minor'') dry_run fs =
       apply_version tk cur (version_str (bump_minor v)) dry_run
         \<lparr>content = fs,
          trace = [OpenRead, Info (CurrentVersion cur), Info (BumpingUsing ''minor'')]\<rparr>"
    and "bump_command tk ask (Some ''major'') dry_run fs =
       apply_version tk cur (version_str (bump_major v)) dry_run
         \<lparr>content = fs,
          trace = [OpenRead, Info (CurrentVersion cur), Info (BumpingUsing ''major'')]\<rparr>"
  by (simp_all add: bump_command_current [OF assms] select_target_argument compute_next_def
      emit_def)

lemma semver_parse_not_keyword:
  assumes "semver_parse s \<noteq> None"
  shows "s \<noteq> []" and "\<not> startswith s ''v''" and "s \<notin> set [''patch'', ''minor'', ''major'']"
proof -
  from assms obtain v where "semver_parse s = Some v" by blast
  from semver_parse_hd [OF this] have s: "s \<noteq> []" "is_digit (hd s)" by simp_all
  show "s \<noteq> []" by fact
  from s show "\<not> startswith s ''v''"
    by (cases s) (auto simp: startswith_def is_digit_def)
  from s show "s \<notin> set [''patch'', ''minor'', ''major'']"
    by (auto simp: is_digit_def)
qed

lemma select_target_stripped:
  assumes "s \<noteq> []" and "s \<notin> set [''patch'', ''minor'', ''major'']" and "\<not> startswith s ''v''"
  shows "select_target ask (Some (CHR ''v'' # s)) cur v w = (w, Inr ([], s))"
    and "select_target ask (Some s) cur v w = (w, Inr ([], s))"
  using assms by (simp_all add: select_target_argument startswith_def)

lemma bump_command_read_failed:
  assumes "fs \<noteq> None" and "snd (get_current_version tk \<lparr>content = fs, trace = []\<rparr>) = Inl e"
  shows "bump_command tk ask version dry_run fs =
     (\<lparr>content = fs, trace = [OpenRead, Error ReadFailed]\<rparr>, Inl (Exit 1))"
  using assms(1) get_current_version_Inl [OF assms(2)]
  by (auto simp: bump_command_def emit_def)

lemma bump_command_invalid_current:
  assumes "snd (get_current_version tk \<lparr>content = fs, trace = []\<rparr>) = Inr s"
    and "semver_parse s = None"
  shows "bump_command tk ask version dry_run fs =
     (\<lparr>content = fs, trace = [OpenRead, Error (InvalidCurrent s)]\<rparr>, Inl (Exit 1))"
  using get_current_version_Inr [OF assms(1)] assms(2)
  by (auto simp: bump_command_def emit_def)

lemma bump_command_missing:
  "bump_command tk ask version dry_run None =
     (\<lparr>content = None, trace = [Error NotFound]\<rparr>, Inl (Exit 1))"
  by (simp add: bump_command_def emit_def)

lemma bump_command_invalid_explicit:
  assumes "s \<noteq> []" and "s \<notin> set [''patch'', ''minor'', ''major'']"
    and "semver_parse (if startswith s ''v'' then drop 1 s else s) = None"
  shows "snd (bump_command tk ask (Some s) dry_run fs) = Inl (Exit 1)
       \<and> content (fst (bump_command tk ask (Some s) dry_run fs)) = fs
       \<and> OpenWrite \<notin> set (trace (fst (bump_command tk ask (Some s) dry_run fs)))"
proof (cases fs)
  case None
  then show ?thesis by (simp add: bump_command_missing)
next
  case (Some body)
  show ?thesis
  proof (cases "snd (get_current_version tk \<lparr>content = fs, trace = []\<rparr>)")
    case (Inl e)
    from Some have "fs \<noteq> None" by simp
    from bump_command_read_failed [OF this Inl] show ?thesis by simp
  next
    case (Inr cur)
    show ?thesis
    proof (cases "semver_parse cur")
      case None
      with Inr show ?thesis by (simp add: bump_command_invalid_current)
    next
      case (Some v)
      from bump_command_explicit [OF Inr Some assms(1,2)] assms(3)
      show ?thesis by simp
    qed
  qed
qed

lemma get_current_version_cases:
  "get_current_version tk w = (emit (Error ReadFailed) (emit OpenRead w), Inl (Exit 1))
   \<or> (\<exists>s. get_current_version tk w = (emit OpenRead w, Inr s))"
  by (auto simp: get_current_version_def Let_def split: option.splits)

lemma apply_version_outcome:
  assumes run: "apply_version tk cur new dry_run w3 = (w, r)"
    and clean: "\<forall>m. Error m \<notin> set (trace w3)"
  shows "r = Inr () \<and> (\<forall>m. Error m \<notin> set (trace w))
       \<or> r = Inl (Exit 1) \<and> (\<exists>m. Error m \<in> set (trace w))"
proof (cases dry_run)
  case True
  with run clean show ?thesis by (auto simp: apply_version_dry_run emit_def)
next
  case False
  let ?w1 = "emit (Info Updating) (emit (Info (NewVersionWillBe new)) w3)"
  obtain w2 r2 where upd: "update_version tk new ?w1 = (w2, r2)"
    by (cases "update_version tk new ?w1")
  show ?thesis
  proof (cases r2)
    case (Inl e)
    with upd update_version_Inl [of tk new ?w1 w2 e]
    have "e = Exit 1" "\<exists>t. trace w2 = t @ [Error UpdateFailed]" by simp_all
    moreover from run False upd Inl have "w = w2" "r = Inl e"
      by (simp_all add: apply_version_def)
    ultimately show ?thesis by auto
  next
    case (Inr u)
    with upd update_version_Inr [of tk new ?w1 w2 u]
    have t2: "trace w2 = trace ?w1 @ [OpenRead, OpenWrite]" by auto
    from get_current_version_cases [of tk w2] show ?thesis
    proof
      assume g: "get_current_version tk w2 = (emit (Error ReadFailed) (emit OpenRead w2), Inl (Exit 1))"
      with run False upd Inr have "w = emit (Error ReadFailed) (emit OpenRead w2)" "r = Inl (Exit 1)"
        by (simp_all add: apply_version_def)
      then show ?thesis by (auto simp: emit_def)
    next
      assume "\<exists>s. get_current_version tk w2 = (emit OpenRead w2, Inr s)"
      then obtain s where g: "get_current_version tk w2 = (emit OpenRead w2, Inr s)" by blast
      show ?thesis
      proof (cases "s = new")
        case True
        with run False upd Inr g
        have "w = emit (Info LockfileHint) (emit (Success cur new) (emit OpenRead w2))" "r = Inr ()"
          by (simp_all add: apply_version_def)
        with t2 clean show ?thesis by (auto simp: emit_def)
      next
        case ne: False
        with run False upd Inr g
        have "w = emit (Error (UpdateMismatch new s)) (emit OpenRead w2)" "r = Inl (Exit 1)"
          by (simp_all add: apply_version_def)
        then show ?thesis by (auto simp: emit_def)
      qed
    qed
  qed
qed

lemma bump_command_outcome:
  assumes run: "bump_command tk ask version dry_run fs = (w, r)"
  shows "r = Inr () \<and> (\<forall>m. Error m \<notin> set (trace w))
       \<or> r = Inl (Exit 1) \<and> (\<exists>m. Error m \<in> set (trace w))
       \<or> r = Inl (Exit 0) \<and> (\<forall>m. Error m \<notin> set (trace w)) \<and> content w = fs
           \<and> OpenWrite \<notin> set (trace w) \<and> (\<exists>t p c. trace w = t @ [Prompt p c])"
  using bump_command_before_apply [OF run]
proof (elim disjE exE conjE)
  fix cur new w3
  assume "\<forall>m. Error m \<notin> set (trace w3)" "apply_version tk cur new dry_run w3 = (w, r)"
  from apply_version_outcome [OF this(2,1)] show ?thesis by blast
qed auto

lemma bump_command_declined:
  assumes "snd (get_current_version tk \<lparr>content = fs, trace = []\<rparr>) = Inr cur"
    and "semver_parse cur = Some v"
    and "version = None \<or> version = Some []"
    and "ask (select_message cur) (select_choices cur v) = None
         \<or> ask (select_message cur) (select_choices cur v) = Some []"
  shows "bump_command tk ask version dry_run fs =
     (\<lparr>content = fs,
       trace = [OpenRead, Info (CurrentVersion cur),
                Prompt (select_message cur) (select_choices cur v)]\<rparr>,
      Inl (Exit 0))"
  using assms(3,4)
  by (auto simp: bump_command_current [OF assms(1,2)] select_target_def emit_def)

section \<open>The claims\<close>

text \<open>
  Claim C1. For every current version, the patch request yields the version with patch + 1 and
  the same major and minor; the minor request yields minor + 1 and patch 0; the major request
  yields major + 1, minor 0 and patch 0. In the three cases the result carries no pre-release
  and no build metadata, and the string the command goes on with parses back to exactly that
  version.
\<close>

theorem compute_next_bump:
  "compute_next v ''patch'' s w =
     (emit (Info (BumpingUsing ''patch'')) w,
      Inr (version_str \<lparr>major = major v, minor = minor v, patch = patch v + 1,
                        prerelease = None, build = None\<rparr>))
   \<and> compute_next v ''minor'' s w =
     (emit (Info (BumpingUsing ''minor'')) w,
      Inr (version_str \<lparr>major = major v, minor = minor v + 1, patch = 0,
                        prerelease = None, build = None\<rparr>))
   \<and> compute_next v ''major'' s w =
     (emit (Info (BumpingUsing ''major'')) w,
      Inr (version_str \<lparr>major = major v + 1, minor = 0, patch = 0,
                        prerelease = None, build = None\<rparr>))
   \<and> semver_parse (version_str \<lparr>major = a, minor = b, patch = c,
                        prerelease = None, build = None\<rparr>)
       = Some \<lparr>major = a, minor = b, patch = c, prerelease = None, build = None\<rparr>"
  by (simp add: compute_next_def bump_patch_def bump_minor_def bump_major_def
        semver_parse_version_str)

theorem compute_next_bump_witness:
  "snd (compute_next \<lparr>major = 0, minor = 1, patch = 0, prerelease = None, build = None\<rparr>
          ''patch'' [] \<lparr>content = None, trace = []\<rparr>) = Inr ''0.1.1''
   \<and> snd (compute_next \<lparr>major = 1, minor = 9, patch = 9, prerelease = None, build = None\<rparr>
          ''minor'' [] \<lparr>content = None, trace = []\<rparr>) = Inr ''1.10.0''
   \<and> semver_parse ''2.0.0-beta''
       = Some \<lparr>major = 2, minor = 0, patch = 0, prerelease = Some ''beta'', build = None\<rparr>
   \<and> snd (compute_next \<lparr>major = 2, minor = 0, patch = 0, prerelease = Some ''beta'', build = None\<rparr>
          ''major'' [] \<lparr>content = None, trace = []\<rparr>) = Inr ''3.0.0''"
proof -
  have p: "semver_parse ''2.0.0-beta''
       = Some \<lparr>major = 2, minor = 0, patch = 0, prerelease = Some ''beta'', build = None\<rparr>"
    by code_simp
  note a = compute_next_bump [of "\<lparr>major = 0, minor = 1, patch = 0, prerelease = None, build = None\<rparr>"
        "[]" "\<lparr>content = None, trace = []\<rparr>", THEN conjunct1]
  note b = compute_next_bump [of "\<lparr>major = 1, minor = 9, patch = 9, prerelease = None, build = None\<rparr>"
        "[]" "\<lparr>content = None, trace = []\<rparr>", THEN conjunct2, THEN conjunct1]
  note c = compute_next_bump [of "\<lparr>major = 2, minor = 0, patch = 0, prerelease = Some ''beta'', build = None\<rparr>"
        "[]" "\<lparr>content = None, trace = []\<rparr>", THEN conjunct2, THEN conjunct2, THEN conjunct1]
  from a b c p show ?thesis
    by (simp add: version_str_def str_nat.simps digit_char_def)
qed

text \<open>
  Claim C2. A run without \<^verbatim>\<open>dry_run\<close> that returns normally has written the document with
  the version field set to the new version, has read the manifest again, and the version
  read back from the final file is the new version. When the write succeeds and the version
  read back differs from the new one, the apply step logs the mismatch and exits with
  status 1.
\<close>

theorem verified_write:
  "(bump_command tk ask version False fs = (w, Inr ()) \<longrightarrow>
      (\<exists>cur new t body d d'.
          trace w = t @ [OpenRead, OpenWrite, OpenRead, Success cur new, Info LockfileHint] \<and>
          fs = Some body \<and> toml_parse tk body = Some d \<and>
          toml_set_version tk d new = Some d' \<and> toml_dumps tk d' = content w \<and>
          snd (get_current_version tk w) = Inr new))
   \<and> (update_version tk new (emit (Info Updating) (emit (Info (NewVersionWillBe new)) w0))
          = (w2, Inr ()) \<and>
        snd (get_current_version tk w2) = Inr updated \<and> updated \<noteq> new \<longrightarrow>
        apply_version tk cur new False w0 =
          (emit (Error (UpdateMismatch new updated)) (emit OpenRead w2), Inl (Exit 1)))"
proof (intro conjI impI)
  assume run: "bump_command tk ask version False fs = (w, Inr ())"
  from bump_command_reaches_apply [OF run] obtain cur new w3 where
    w3: "content w3 = fs" and ap: "apply_version tk cur new False w3 = (w, Inr ())"
    by blast
  from apply_version_success [OF ap] w3
  show "\<exists>cur new t body d d'.
          trace w = t @ [OpenRead, OpenWrite, OpenRead, Success cur new, Info LockfileHint] \<and>
          fs = Some body \<and> toml_parse tk body = Some d \<and>
          toml_set_version tk d new = Some d' \<and> toml_dumps tk d' = content w \<and>
          snd (get_current_version tk w) = Inr new"
    by auto
next
  assume h: "update_version tk new (emit (Info Updating) (emit (Info (NewVersionWillBe new)) w0))
          = (w2, Inr ()) \<and>
        snd (get_current_version tk w2) = Inr updated \<and> updated \<noteq> new"
  then have rd: "get_current_version tk w2 = (emit OpenRead w2, Inr updated)"
    using get_current_version_Inr(1) by blast
  from h rd show "apply_version tk cur new False w0 =
          (emit (Error (UpdateMismatch new updated)) (emit OpenRead w2), Inl (Exit 1))"
    by (simp add: apply_version_def)
qed

theorem verified_write_witness:
  "bump_command line_toml (\<lambda>m cs. None) (Some ''patch'') False (Some (manifest ''1.0.0''))
     = (\<lparr>content = Some (manifest ''1.0.1''),
         trace = [OpenRead, Info (CurrentVersion ''1.0.0''), Info (BumpingUsing ''patch''),
                  Info (NewVersionWillBe ''1.0.1''), Info Updating, OpenRead, OpenWrite,
                  OpenRead, Success ''1.0.0'' ''1.0.1'', Info LockfileHint]\<rparr>, Inr ())
   \<and> snd (get_current_version line_toml
            \<lparr>content = Some (manifest ''1.0.1''),
             trace = [OpenRead, Info (CurrentVersion ''1.0.0''), Info (BumpingUsing ''patch''),
                  Info (NewVersionWillBe ''1.0.1''), Info Updating, OpenRead, OpenWrite,
                  OpenRead, Success ''1.0.0'' ''1.0.1'', Info LockfileHint]\<rparr>) = Inr ''1.0.1''
   \<and> apply_version
        \<lparr>toml_parse = Some, toml_get_version = Some, toml_set_version = (\<lambda>d v. Some d),
         toml_dumps = Some\<rparr>
        ''1.0.0'' ''1.0.1'' False \<lparr>content = Some ''1.0.0'', trace = []\<rparr>
      = (\<lparr>content = Some ''1.0.0'',
          trace = [Info (NewVersionWillBe ''1.0.1''), Info Updating, OpenRead, OpenWrite,
                   OpenRead, Error (UpdateMismatch ''1.0.1'' ''1.0.0'')]\<rparr>, Inl (Exit 1))"
proof -
  let ?W = "\<lparr>content = Some (manifest ''1.0.1''),
         trace = [OpenRead, Info (CurrentVersion ''1.0.0''), Info (BumpingUsing ''patch''),
                  Info (NewVersionWillBe ''1.0.1''), Info Updating, OpenRead, OpenWrite,
                  OpenRead, Success ''1.0.0'' ''1.0.1'', Info LockfileHint]\<rparr>"
  let ?stuck = "\<lparr>toml_parse = Some, toml_get_version = Some,
                 toml_set_version = (\<lambda>d v. Some d), toml_dumps = Some\<rparr>
                :: string tomlkit"
  let ?w2 = "\<lparr>content = Some ''1.0.0'',
          trace = [Info (NewVersionWillBe ''1.0.1''), Info Updating, OpenRead, OpenWrite]\<rparr>"
  have run: "bump_command line_toml (\<lambda>m cs. None) (Some ''patch'') False
               (Some (manifest ''1.0.0'')) = (?W, Inr ())"
    by code_simp
  have upd: "update_version ?stuck ''1.0.1''
          (emit (Info Updating) (emit (Info (NewVersionWillBe ''1.0.1''))
             \<lparr>content = Some ''1.0.0'', trace = []\<rparr>)) = (?w2, Inr ())"
    by (simp add: update_version_def emit_def)
  have rd: "snd (get_current_version ?stuck ?w2) = Inr ''1.0.0''"
    by (simp add: get_current_version_def emit_def)
  have ne: "''1.0.0'' \<noteq> ''1.0.1''" by simp
  note thm1 = verified_write [where tk = line_toml and ask = "\<lambda>m cs. None"
      and version = "Some ''patch''" and fs = "Some (manifest ''1.0.0'')" and w = ?W, THEN conjunct1, THEN mp, OF run]
  note thm2 = verified_write [where tk = ?stuck and new = "''1.0.1''" and cur = "''1.0.0''"
      and ?w0.0 = "\<lparr>content = Some ''1.0.0'', trace = []\<rparr>" and ?w2.0 = ?w2
      and updated = "''1.0.0''", THEN conjunct2, THEN mp]
  from thm1 have "snd (get_current_version line_toml ?W) = Inr ''1.0.1''"
    by auto
  moreover from thm2 upd rd ne
  have "apply_version ?stuck ''1.0.0'' ''1.0.1'' False \<lparr>content = Some ''1.0.0'', trace = []\<rparr>
      = (emit (Error (UpdateMismatch ''1.0.1'' ''1.0.0'')) (emit OpenRead ?w2), Inl (Exit 1))"
    by blast
  ultimately show ?thesis using run by (simp add: emit_def)
qed



text \<open>
  Claim C5. Whatever the request (keyword, explicit version or none) and whatever \<^verbatim>\<open>dry_run\<close>,
  a manifest whose version field is not a valid semantic version makes the run log the
  invalid current version and exit with status 1, right after the read.
\<close>

theorem invalid_current_version_fatal:
  assumes "snd (get_current_version tk \<lparr>content = fs, trace = []\<rparr>) = Inr s"
    and "semver_parse s = None"
  shows "bump_command tk ask version dry_run fs =
     (\<lparr>content = fs, trace = [OpenRead, Error (InvalidCurrent s)]\<rparr>, Inl (Exit 1))"
  using get_current_version_Inr [OF assms(1)] assms(2)
  by (auto simp: bump_command_def emit_def)

theorem invalid_current_version_fatal_witness:
  "snd (get_current_version line_toml \<lparr>content = Some (manifest ''1.9''), trace = []\<rparr>)
     = Inr ''1.9''
   \<and> semver_parse ''1.9'' = None
   \<and> bump_command line_toml (\<lambda>m cs. None) (Some ''2.0.0'') True (Some (manifest ''1.9''))
     = (\<lparr>content = Some (manifest ''1.9''), trace = [OpenRead, Error (InvalidCurrent ''1.9'')]\<rparr>,
        Inl (Exit 1))"
proof -
  have r: "snd (get_current_version line_toml \<lparr>content = Some (manifest ''1.9''), trace = []\<rparr>)
     = Inr ''1.9''"
    by code_simp
  have p: "semver_parse ''1.9'' = None" by code_simp
  from invalid_current_version_fatal [OF r p] r p show ?thesis by simp
qed

text \<open>
  Claim C6. When \<^verbatim>\<open>pyproject.toml\<close> does not exist, the run logs that it was not found and
  exits with status 1; nothing is read, asked or written, whatever the libraries and the
  arguments.
\<close>

theorem missing_manifest:
  "bump_command tk ask version dry_run None =
     (\<lparr>content = None, trace = [Error NotFound]\<rparr>, Inl (Exit 1))"
  by (simp add: bump_command_def emit_def)

text \<open>
  Claim C8, as amended. For every non-empty argument \<open>s\<close> that is not a bump keyword and does
  not itself start with \<open>v\<close>, the run with the argument \<open>v\<close> followed by \<open>s\<close> and the run
  with \<open>s\<close> have the same result: in both, the target selected is the explicit version
  \<open>s\<close>, so one leading \<open>v\<close> is stripped, and once the current version is read and valid,
  \<open>s\<close> is what is validated and what the apply step receives. Every valid semantic version
  is such an \<open>s\<close>.
\<close>

theorem leading_v_stripped_once:
  "(s \<noteq> [] \<and> s \<notin> set [''patch'', ''minor'', ''major''] \<and> \<not> startswith s ''v'' \<longrightarrow>
      select_target ask (Some (CHR ''v'' # s)) cur v w = (w, Inr ([], s))
      \<and> select_target ask (Some s) cur v w = (w, Inr ([], s))
      \<and> bump_command tk ask (Some (CHR ''v'' # s)) dry_run fs
          = bump_command tk ask (Some s) dry_run fs
      \<and> (snd (get_current_version tk \<lparr>content = fs, trace = []\<rparr>) = Inr cur
           \<and> semver_parse cur = Some v \<longrightarrow>
           bump_command tk ask (Some (CHR ''v'' # s)) dry_run fs =
             (case semver_parse s of
                None \<Rightarrow>
                  (\<lparr>content = fs,
                    trace = [OpenRead, Info (CurrentVersion cur), Error (InvalidFormat s),
                             Error UseValidSemver]\<rparr>,
                   Inl (Exit 1))
              | Some _ \<Rightarrow>
                  apply_version tk cur s dry_run
                    \<lparr>content = fs, trace = [OpenRead, Info (CurrentVersion cur)]\<rparr>)))
   \<and> (semver_parse s \<noteq> None \<longrightarrow>
        s \<noteq> [] \<and> s \<notin> set [''patch'', ''minor'', ''major''] \<and> \<not> startswith s ''v'')"
proof -
  have valid: "semver_parse s \<noteq> None \<longrightarrow>
        s \<noteq> [] \<and> s \<notin> set [''patch'', ''minor'', ''major''] \<and> \<not> startswith s ''v''"
    using semver_parse_not_keyword [of s] by blast
  have main: "select_target ask (Some (CHR ''v'' # s)) cur v w = (w, Inr ([], s))
      \<and> select_target ask (Some s) cur v w = (w, Inr ([], s))
      \<and> bump_command tk ask (Some (CHR ''v'' # s)) dry_run fs
          = bump_command tk ask (Some s) dry_run fs
      \<and> (snd (get_current_version tk \<lparr>content = fs, trace = []\<rparr>) = Inr cur
           \<and> semver_parse cur = Some v \<longrightarrow>
           bump_command tk ask (Some (CHR ''v'' # s)) dry_run fs =
             (case semver_parse s of
                None \<Rightarrow>
                  (\<lparr>content = fs,
                    trace = [OpenRead, Info (CurrentVersion cur), Error (InvalidFormat s),
                             Error UseValidSemver]\<rparr>,
                   Inl (Exit 1))
              | Some _ \<Rightarrow>
                  apply_version tk cur s dry_run
                    \<lparr>content = fs, trace = [OpenRead, Info (CurrentVersion cur)]\<rparr>))"
    if a: "s \<noteq> []" "s \<notin> set [''patch'', ''minor'', ''major'']" "\<not> startswith s ''v''"
  proof -
    note st = select_target_stripped [OF a]
    have same: "bump_command tk ask (Some (CHR ''v'' # s)) dry_run fs
          = bump_command tk ask (Some s) dry_run fs"
      unfolding bump_command_def st by (rule refl)
    have expl: "bump_command tk ask (Some (CHR ''v'' # s)) dry_run fs =
             (case semver_parse s of
                None \<Rightarrow>
                  (\<lparr>content = fs,
                    trace = [OpenRead, Info (CurrentVersion cur), Error (InvalidFormat s),
                             Error UseValidSemver]\<rparr>,
                   Inl (Exit 1))
              | Some _ \<Rightarrow>
                  apply_version tk cur s dry_run
                    \<lparr>content = fs, trace = [OpenRead, Info (CurrentVersion cur)]\<rparr>)"
      if r: "snd (get_current_version tk \<lparr>content = fs, trace = []\<rparr>) = Inr cur"
        and c: "semver_parse cur = Some v"
    proof -
      have "CHR ''v'' # s \<noteq> []" "CHR ''v'' # s \<notin> set [''patch'', ''minor'', ''major'']"
        by simp_all
      moreover have sv: "(if startswith (CHR ''v'' # s) ''v'' then drop 1 (CHR ''v'' # s)
                          else CHR ''v'' # s) = s"
        by (simp add: startswith_def)
      ultimately show ?thesis
        using bump_command_explicit [OF r c, of "CHR ''v'' # s" ask dry_run] unfolding sv
        by blast
    qed
    from st same expl show ?thesis by blast
  qed
  from main valid show ?thesis by blast
qed

theorem leading_v_stripped_once_witness:
  "semver_parse ''1.2.3'' \<noteq> None
   \<and> ''1.2.3'' \<noteq> [] \<and> ''1.2.3'' \<notin> set [''patch'', ''minor'', ''major'']
   \<and> \<not> startswith ''1.2.3'' ''v''
   \<and> bump_command line_toml (\<lambda>m cs. None) (Some ''v1.2.3'') False (Some (manifest ''1.0.0''))
     = bump_command line_toml (\<lambda>m cs. None) (Some ''1.2.3'') False (Some (manifest ''1.0.0''))
   \<and> bump_command line_toml (\<lambda>m cs. None) (Some ''v1.2.3'') False (Some (manifest ''1.0.0''))
     = (\<lparr>content = Some (manifest ''1.2.3''),
         trace = [OpenRead, Info (CurrentVersion ''1.0.0''), Info (NewVersionWillBe ''1.2.3''),
                  Info Updating, OpenRead, OpenWrite, OpenRead, Success ''1.0.0'' ''1.2.3'',
                  Info LockfileHint]\<rparr>,
        Inr ())
   \<and> bump_command line_toml (\<lambda>m cs. None) (Some ''vnot-a-version'') False
        (Some (manifest ''1.0.0''))
     = (\<lparr>content = Some (manifest ''1.0.0''),
         trace = [OpenRead, Info (CurrentVersion ''1.0.0''),
                  Error (InvalidFormat ''not-a-version''), Error UseValidSemver]\<rparr>,
        Inl (Exit 1))"
proof -
  let ?v = "\<lparr>major = 1, minor = 0, patch = 0, prerelease = None, build = None\<rparr>"
  let ?fs = "Some (manifest ''1.0.0'')"
  have p: "semver_parse ''1.2.3'' \<noteq> None" by code_simp
  have q: "semver_parse ''not-a-version'' = None" by code_simp
  have rd: "snd (get_current_version line_toml \<lparr>content = ?fs, trace = []\<rparr>) = Inr ''1.0.0''"
    by code_simp
  have cur: "semver_parse ''1.0.0'' = Some ?v" by code_simp
  have ap: "apply_version line_toml ''1.0.0'' ''1.2.3'' False
              \<lparr>content = ?fs, trace = [OpenRead, Info (CurrentVersion ''1.0.0'')]\<rparr>
     = (\<lparr>content = Some (manifest ''1.2.3''),
         trace = [OpenRead, Info (CurrentVersion ''1.0.0''), Info (NewVersionWillBe ''1.2.3''),
                  Info Updating, OpenRead, OpenWrite, OpenRead, Success ''1.0.0'' ''1.2.3'',
                  Info LockfileHint]\<rparr>,
        Inr ())"
    by code_simp
  have h1: "''1.2.3'' \<noteq> [] \<and> ''1.2.3'' \<notin> set [''patch'', ''minor'', ''major'']
      \<and> \<not> startswith ''1.2.3'' ''v''"
    and h2: "''not-a-version'' \<noteq> [] \<and> ''not-a-version'' \<notin> set [''patch'', ''minor'', ''major'']
      \<and> \<not> startswith ''not-a-version'' ''v''"
    by (simp_all add: startswith_def)
  note t1 = leading_v_stripped_once [where s = "''1.2.3''" and tk = line_toml
      and ask = "\<lambda>m cs. None" and dry_run = False and fs = ?fs and cur = "''1.0.0''" and v = ?v
      and w = "\<lparr>content = None, trace = []\<rparr>", THEN conjunct1, THEN mp, OF h1]
  note t2 = leading_v_stripped_once [where s = "''not-a-version''" and tk = line_toml
      and ask = "\<lambda>m cs. None" and dry_run = False and fs = ?fs and cur = "''1.0.0''" and v = ?v
      and w = "\<lparr>content = None, trace = []\<rparr>", THEN conjunct1, THEN mp, OF h2]
  from t1 have same: "bump_command line_toml (\<lambda>m cs. None) (Some ''v1.2.3'') False ?fs
     = bump_command line_toml (\<lambda>m cs. None) (Some ''1.2.3'') False ?fs"
    by simp
  from t1 rd cur p have a: "bump_command line_toml (\<lambda>m cs. None) (Some ''v1.2.3'') False ?fs
     = apply_version line_toml ''1.0.0'' ''1.2.3'' False
              \<lparr>content = ?fs, trace = [OpenRead, Info (CurrentVersion ''1.0.0'')]\<rparr>"
    by auto
  from t2 rd cur q have b: "bump_command line_toml (\<lambda>m cs. None) (Some ''vnot-a-version'') False ?fs
     = (\<lparr>content = ?fs,
         trace = [OpenRead, Info (CurrentVersion ''1.0.0''),
                  Error (InvalidFormat ''not-a-version''), Error UseValidSemver]\<rparr>,
        Inl (Exit 1))"
    by auto
  from same a b ap p h1 show ?thesis by simp
qed

text \<open>
  Claim C8 does not extend to every argument: only one \<open>v\<close> is stripped, and the keyword
  test comes first. With \<open>s\<close> = \<open>v1.2.3\<close> the argument \<open>vv1.2.3\<close> is rejected while \<open>v1.2.3\<close>
  is accepted, and with \<open>s\<close> = \<open>patch\<close> the argument \<open>vpatch\<close> is rejected while \<open>patch\<close>
  bumps.
\<close>

theorem leading_v_counterexample:
  "bump_command line_toml (\<lambda>m cs. None) (Some ''vv1.2.3'') True (Some (manifest ''1.0.0''))
     = (\<lparr>content = Some (manifest ''1.0.0''),
         trace = [OpenRead, Info (CurrentVersion ''1.0.0''), Error (InvalidFormat ''v1.2.3''),
                  Error UseValidSemver]\<rparr>,
        Inl (Exit 1))
   \<and> bump_command line_toml (\<lambda>m cs. None) (Some ''v1.2.3'') True (Some (manifest ''1.0.0''))
     = (\<lparr>content = Some (manifest ''1.0.0''),
         trace = [OpenRead, Info (CurrentVersion ''1.0.0''), Info (NewVersionWillBe ''1.2.3''),
                  Info DryRunEnabled]\<rparr>,
        Inr ())
   \<and> bump_command line_toml (\<lambda>m cs. None) (Some ''vv1.2.3'') True (Some (manifest ''1.0.0''))
     \<noteq> bump_command line_toml (\<lambda>m cs. None) (Some ''v1.2.3'') True (Some (manifest ''1.0.0''))
   \<and> bump_command line_toml (\<lambda>m cs. None) (Some ''vpatch'') True (Some (manifest ''1.0.0''))
     \<noteq> bump_command line_toml (\<lambda>m cs. None) (Some ''patch'') True (Some (manifest ''1.0.0''))"
proof -
  have a: "bump_command line_toml (\<lambda>m cs. None) (Some ''vv1.2.3'') True (Some (manifest ''1.0.0''))
     = (\<lparr>content = Some (manifest ''1.0.0''),
         trace = [OpenRead, Info (CurrentVersion ''1.0.0''), Error (InvalidFormat ''v1.2.3''),
                  Error UseValidSemver]\<rparr>,
        Inl (Exit 1))"
    by code_simp
  have b: "bump_command line_toml (\<lambda>m cs. None) (Some ''v1.2.3'') True (Some (manifest ''1.0.0''))
     = (\<lparr>content = Some (manifest ''1.0.0''),
         trace = [OpenRead, Info (CurrentVersion ''1.0.0''), Info (NewVersionWillBe ''1.2.3''),
                  Info DryRunEnabled]\<rparr>,
        Inr ())"
    by code_simp
  have c: "snd (bump_command line_toml (\<lambda>m cs. None) (Some ''vpatch'') True
                  (Some (manifest ''1.0.0''))) = Inl (Exit 1)"
    by code_simp
  have d: "snd (bump_command line_toml (\<lambda>m cs. None) (Some ''patch'') True
                  (Some (manifest ''1.0.0''))) = Inr ()"
    by code_simp
  from c d have e: "bump_command line_toml (\<lambda>m cs. None) (Some ''vpatch'') True
        (Some (manifest ''1.0.0''))
     \<noteq> bump_command line_toml (\<lambda>m cs. None) (Some ''patch'') True (Some (manifest ''1.0.0''))"
    by auto
  from a b e show ?thesis by simp
qed

text \<open>
  Claim C7. An explicit argument (non-empty, not a bump keyword) whose text after the optional
  leading \<open>v\<close> is not a valid semantic version makes every run exit with status 1 without
  opening the manifest for writing and with the file unchanged; when the current version was
  read and is valid, the error logged is the invalid-format one. A valid explicit argument is
  accepted: the run goes on to the apply step with the stripped text as the new version.
\<close>

theorem invalid_explicit_version:
  assumes "s \<noteq> []" and "s \<notin> set [''patch'', ''minor'', ''major'']"
  shows "(semver_parse (if startswith s ''v'' then drop 1 s else s) = None \<longrightarrow>
            snd (bump_command tk ask (Some s) dry_run fs) = Inl (Exit 1)
            \<and> content (fst (bump_command tk ask (Some s) dry_run fs)) = fs
            \<and> OpenWrite \<notin> set (trace (fst (bump_command tk ask (Some s) dry_run fs))))
       \<and> (semver_parse (if startswith s ''v'' then drop 1 s else s) = None
            \<and> snd (get_current_version tk \<lparr>content = fs, trace = []\<rparr>) = Inr cur
            \<and> semver_parse cur \<noteq> None \<longrightarrow>
            bump_command tk ask (Some s) dry_run fs =
              (\<lparr>content = fs,
                trace = [OpenRead, Info (CurrentVersion cur),
                         Error (InvalidFormat (if startswith s ''v'' then drop 1 s else s)),
                         Error UseValidSemver]\<rparr>,
               Inl (Exit 1)))
       \<and> (semver_parse (if startswith s ''v'' then drop 1 s else s) \<noteq> None
            \<and> snd (get_current_version tk \<lparr>content = fs, trace = []\<rparr>) = Inr cur
            \<and> semver_parse cur \<noteq> None \<longrightarrow>
            bump_command tk ask (Some s) dry_run fs =
              apply_version tk cur (if startswith s ''v'' then drop 1 s else s) dry_run
                \<lparr>content = fs, trace = [OpenRead, Info (CurrentVersion cur)]\<rparr>)"
proof -
  let ?x = "if startswith s ''v'' then drop 1 s else s"
  have A: "semver_parse ?x = None \<longrightarrow>
            snd (bump_command tk ask (Some s) dry_run fs) = Inl (Exit 1)
            \<and> content (fst (bump_command tk ask (Some s) dry_run fs)) = fs
            \<and> OpenWrite \<notin> set (trace (fst (bump_command tk ask (Some s) dry_run fs)))"
    using bump_command_invalid_explicit [OF assms] by blast
  have E: "bump_command tk ask (Some s) dry_run fs =
     (case semver_parse ?x of
        None \<Rightarrow>
          (\<lparr>content = fs,
            trace = [OpenRead, Info (CurrentVersion cur), Error (InvalidFormat ?x),
                     Error UseValidSemver]\<rparr>,
           Inl (Exit 1))
      | Some _ \<Rightarrow>
          apply_version tk cur ?x dry_run
            \<lparr>content = fs, trace = [OpenRead, Info (CurrentVersion cur)]\<rparr>)"
    if "snd (get_current_version tk \<lparr>content = fs, trace = []\<rparr>) = Inr cur"
      and "semver_parse cur \<noteq> None"
  proof -
    from that(2) obtain v where "semver_parse cur = Some v" by blast
    from bump_command_explicit [OF that(1) this assms] show ?thesis .
  qed
  have B: "semver_parse ?x = None
            \<and> snd (get_current_version tk \<lparr>content = fs, trace = []\<rparr>) = Inr cur
            \<and> semver_parse cur \<noteq> None \<longrightarrow>
            bump_command tk ask (Some s) dry_run fs =
              (\<lparr>content = fs,
                trace = [OpenRead, Info (CurrentVersion cur), Error (InvalidFormat ?x),
                         Error UseValidSemver]\<rparr>,
               Inl (Exit 1))"
    using E by simp
  have C: "semver_parse ?x \<noteq> None
            \<and> snd (get_current_version tk \<lparr>content = fs, trace = []\<rparr>) = Inr cur
            \<and> semver_parse cur \<noteq> None \<longrightarrow>
            bump_command tk ask (Some s) dry_run fs =
              apply_version tk cur ?x dry_run
                \<lparr>content = fs, trace = [OpenRead, Info (CurrentVersion cur)]\<rparr>"
    using E by auto
  show ?thesis by (rule conjI [OF A conjI [OF B C]])
qed

theorem invalid_explicit_version_witness:
  "semver_parse ''not-a-version'' = None
   \<and> bump_command line_toml (\<lambda>m cs. None) (Some ''not-a-version'') False (Some (manifest ''1.0.0''))
     = (\<lparr>content = Some (manifest ''1.0.0''),
         trace = [OpenRead, Info (CurrentVersion ''1.0.0''),
                  Error (InvalidFormat ''not-a-version''), Error UseValidSemver]\<rparr>,
        Inl (Exit 1))
   \<and> semver_parse ''1.5.0''
     = Some \<lparr>major = 1, minor = 5, patch = 0, prerelease = None, build = None\<rparr>
   \<and> bump_command line_toml (\<lambda>m cs. None) (Some ''v1.5.0'') True (Some (manifest ''1.0.0''))
     = (\<lparr>content = Some (manifest ''1.0.0''),
         trace = [OpenRead, Info (CurrentVersion ''1.0.0''),
                  Info (NewVersionWillBe ''1.5.0''), Info DryRunEnabled]\<rparr>,
        Inr ())"
proof -
  have bad: "semver_parse ''not-a-version'' = None" by code_simp
  have good: "semver_parse ''1.5.0''
     = Some \<lparr>major = 1, minor = 5, patch = 0, prerelease = None, build = None\<rparr>"
    by code_simp
  have rd: "snd (get_current_version line_toml \<lparr>content = Some (manifest ''1.0.0''), trace = []\<rparr>)
     = Inr ''1.0.0''"
    by code_simp
  have cur: "semver_parse ''1.0.0'' \<noteq> None" by code_simp
  have s1: "''not-a-version'' \<noteq> []" "''not-a-version'' \<notin> set [''patch'', ''minor'', ''major'']"
    and s2: "''v1.5.0'' \<noteq> []" "''v1.5.0'' \<notin> set [''patch'', ''minor'', ''major'']"
    by simp_all
  note t1 = invalid_explicit_version [OF s1, where tk = line_toml and cur = "''1.0.0''"
      and fs = "Some (manifest ''1.0.0'')" and ask = "\<lambda>m cs. None" and dry_run = False,
      THEN conjunct2, THEN conjunct1]
  note t2 = invalid_explicit_version [OF s2, where tk = line_toml and cur = "''1.0.0''"
      and fs = "Some (manifest ''1.0.0'')" and ask = "\<lambda>m cs. None" and dry_run = True,
      THEN conjunct2, THEN conjunct2]
  from t1 bad rd cur
  have a: "bump_command line_toml (\<lambda>m cs. None) (Some ''not-a-version'') False
             (Some (manifest ''1.0.0''))
     = (\<lparr>content = Some (manifest ''1.0.0''),
         trace = [OpenRead, Info (CurrentVersion ''1.0.0''),
                  Error (InvalidFormat ''not-a-version''), Error UseValidSemver]\<rparr>,
        Inl (Exit 1))"
    by (simp add: startswith_def)
  from t2 good rd cur
  have b: "bump_command line_toml (\<lambda>m cs. None) (Some ''v1.5.0'') True (Some (manifest ''1.0.0''))
     = apply_version line_toml ''1.0.0'' ''1.5.0'' True
         \<lparr>content = Some (manifest ''1.0.0''),
          trace = [OpenRead, Info (CurrentVersion ''1.0.0'')]\<rparr>"
    by (simp add: startswith_def)
  from a b bad good show ?thesis
    by (simp add: apply_version_dry_run emit_def)
qed

text \<open>
  Claim C9. When the prompt is reached (no argument, current version read and valid) and the user
  declines, the run exits with status 0 right after the prompt, with the file unchanged and
  nothing logged as an error. In every run an error is logged exactly when the exit status is
  1, and the exit status is 0 or 1.
\<close>

theorem decline_exits_zero:
  "(snd (get_current_version tk \<lparr>content = fs, trace = []\<rparr>) = Inr cur
      \<and> semver_parse cur = Some v
      \<and> (version = None \<or> version = Some [])
      \<and> (ask (select_message cur) (select_choices cur v) = None
          \<or> ask (select_message cur) (select_choices cur v) = Some []) \<longrightarrow>
      bump_command tk ask version dry_run fs =
        (\<lparr>content = fs,
          trace = [OpenRead, Info (CurrentVersion cur),
                   Prompt (select_message cur) (select_choices cur v)]\<rparr>,
         Inl (Exit 0)))
   \<and> ((\<exists>m. Error m \<in> set (trace (fst (bump_command tk ask version dry_run fs))))
        \<longleftrightarrow> snd (bump_command tk ask version dry_run fs) = Inl (Exit 1))
   \<and> ((\<exists>m. Error m \<in> set (trace (fst (bump_command tk ask version dry_run fs))))
        \<longleftrightarrow> exit_status (snd (bump_command tk ask version dry_run fs)) = 1)
   \<and> (exit_status (snd (bump_command tk ask version dry_run fs)) = 0
        \<or> exit_status (snd (bump_command tk ask version dry_run fs)) = 1)"
proof -
  obtain w r where run: "bump_command tk ask version dry_run fs = (w, r)"
    by (cases "bump_command tk ask version dry_run fs")
  have A: "snd (get_current_version tk \<lparr>content = fs, trace = []\<rparr>) = Inr cur
      \<and> semver_parse cur = Some v
      \<and> (version = None \<or> version = Some [])
      \<and> (ask (select_message cur) (select_choices cur v) = None
          \<or> ask (select_message cur) (select_choices cur v) = Some []) \<longrightarrow>
      bump_command tk ask version dry_run fs =
        (\<lparr>content = fs,
          trace = [OpenRead, Info (CurrentVersion cur),
                   Prompt (select_message cur) (select_choices cur v)]\<rparr>,
         Inl (Exit 0))"
    using bump_command_declined by blast
  from bump_command_outcome [OF run]
  have B: "(\<exists>m. Error m \<in> set (trace w)) \<longleftrightarrow> r = Inl (Exit 1)"
    and C: "(\<exists>m. Error m \<in> set (trace w)) \<longleftrightarrow> exit_status r = 1"
    and D: "exit_status r = 0 \<or> exit_status r = 1"
    by auto
  from A B C D run show ?thesis by simp
qed

theorem decline_exits_zero_witness:
  "snd (get_current_version line_toml \<lparr>content = Some (manifest ''1.0.0''), trace = []\<rparr>)
     = Inr ''1.0.0''
   \<and> semver_parse ''1.0.0''
     = Some \<lparr>major = 1, minor = 0, patch = 0, prerelease = None, build = None\<rparr>
   \<and> bump_command line_toml (\<lambda>m cs. None) None False (Some (manifest ''1.0.0''))
     = (\<lparr>content = Some (manifest ''1.0.0''),
         trace = [OpenRead, Info (CurrentVersion ''1.0.0''),
                  Prompt ''Select bump type (Current: 1.0.0)''
                    [''Patch (1.0.0 -> 1.0.1)'', ''Minor (1.0.0 -> 1.1.0)'',
                     ''Major (1.0.0 -> 2.0.0)'']]\<rparr>,
        Inl (Exit 0))
   \<and> exit_status (snd (bump_command line_toml (\<lambda>m cs. None) None False
                         (Some (manifest ''1.0.0'')))) = 0
   \<and> (\<exists>m. Error m \<in> set (trace (fst (bump_command line_toml (\<lambda>m cs. None) (Some ''x'') False
                                         (Some (manifest ''1.0.0''))))))
   \<and> exit_status (snd (bump_command line_toml (\<lambda>m cs. None) (Some ''x'') False
                         (Some (manifest ''1.0.0'')))) = 1"
proof -
  let ?v = "\<lparr>major = 1, minor = 0, patch = 0, prerelease = None, build = None\<rparr>"
  have rd: "snd (get_current_version line_toml \<lparr>content = Some (manifest ''1.0.0''), trace = []\<rparr>)
     = Inr ''1.0.0''"
    by code_simp
  have cur: "semver_parse ''1.0.0'' = Some ?v" by code_simp
  have msg: "select_message ''1.0.0'' = ''Select bump type (Current: 1.0.0)''"
    and chs: "select_choices ''1.0.0'' ?v
      = [''Patch (1.0.0 -> 1.0.1)'', ''Minor (1.0.0 -> 1.1.0)'', ''Major (1.0.0 -> 2.0.0)'']"
    by code_simp+
  have err: "\<exists>m. Error m \<in> set (trace (fst (bump_command line_toml (\<lambda>m cs. None) (Some ''x'') False
                                         (Some (manifest ''1.0.0'')))))"
  proof -
    have "trace (fst (bump_command line_toml (\<lambda>m cs. None) (Some ''x'') False
                                         (Some (manifest ''1.0.0''))))
        = [OpenRead, Info (CurrentVersion ''1.0.0''), Error (InvalidFormat ''x''),
           Error UseValidSemver]"
      by code_simp
    then show ?thesis by auto
  qed
  note t1 = decline_exits_zero [where tk = line_toml and fs = "Some (manifest ''1.0.0'')"
      and cur = "''1.0.0''" and v = ?v and version = None and ask = "\<lambda>m cs. None"
      and dry_run = False, THEN conjunct1, THEN mp]
  note t2 = decline_exits_zero [where tk = line_toml and fs = "Some (manifest ''1.0.0'')"
      and version = "Some ''x''" and ask = "\<lambda>m cs. None"
      and dry_run = False, THEN conjunct2, THEN conjunct2, THEN conjunct1]
  from t1 rd cur
  have a: "bump_command line_toml (\<lambda>m cs. None) None False (Some (manifest ''1.0.0''))
     = (\<lparr>content = Some (manifest ''1.0.0''),
         trace = [OpenRead, Info (CurrentVersion ''1.0.0''),
                  Prompt (select_message ''1.0.0'') (select_choices ''1.0.0'' ?v)]\<rparr>,
        Inl (Exit 0))"
    by simp
  from t2 err
  have b: "exit_status (snd (bump_command line_toml (\<lambda>m cs. None) (Some ''x'') False
                         (Some (manifest ''1.0.0'')))) = 1"
    by blast
  from a b err rd cur msg chs show ?thesis by simp
qed

text \<open>
  Claim C10. The arguments \<open>patch\<close>, \<open>minor\<close> and \<open>major\<close> are bump keywords; the test comes
  before the leading \<open>v\<close> is stripped, so every other non-empty argument becomes an explicit
  version (stripped of one leading \<open>v\<close>) that is validated as a semantic version. The
  argument \<open>vpatch\<close> is therefore the explicit version \<open>patch\<close>, which is rejected.
\<close>

theorem keyword_before_strip:
  "select_target ask (Some ''patch'') cur v w = (w, Inr (''patch'', []))
   \<and> select_target ask (Some ''minor'') cur v w = (w, Inr (''minor'', []))
   \<and> select_target ask (Some ''major'') cur v w = (w, Inr (''major'', []))
   \<and> (s \<noteq> [] \<and> s \<notin> set [''patch'', ''minor'', ''major''] \<longrightarrow>
        select_target ask (Some s) cur v w
          = (w, Inr ([], if startswith s ''v'' then drop 1 s else s)))
   \<and> compute_next v [] x w =
        (case semver_parse x of
           None \<Rightarrow> (emit (Error UseValidSemver) (emit (Error (InvalidFormat x)) w), Inl (Exit 1))
         | Some _ \<Rightarrow> (w, Inr x))
   \<and> (snd (get_current_version tk \<lparr>content = fs, trace = []\<rparr>) = Inr cur
        \<and> semver_parse cur = Some v \<longrightarrow>
        bump_command tk ask (Some ''patch'') dry_run fs =
          apply_version tk cur (version_str (bump_patch v)) dry_run
            \<lparr>content = fs,
             trace = [OpenRead, Info (CurrentVersion cur), Info (BumpingUsing ''patch'')]\<rparr>
        \<and> bump_command tk ask (Some ''vpatch'') dry_run fs =
          (\<lparr>content = fs,
            trace = [OpenRead, Info (CurrentVersion cur), Error (InvalidFormat ''patch''),
                     Error UseValidSemver]\<rparr>,
           Inl (Exit 1)))"
proof -
  have kw: "select_target ask (Some ''patch'') cur v w = (w, Inr (''patch'', []))"
    "select_target ask (Some ''minor'') cur v w = (w, Inr (''minor'', []))"
    "select_target ask (Some ''major'') cur v w = (w, Inr (''major'', []))"
    by (simp_all add: select_target_argument)
  have ex: "s \<noteq> [] \<and> s \<notin> set [''patch'', ''minor'', ''major''] \<longrightarrow>
        select_target ask (Some s) cur v w
          = (w, Inr ([], if startswith s ''v'' then drop 1 s else s))"
    by (simp add: select_target_argument)
  have cn: "compute_next v [] x w =
        (case semver_parse x of
           None \<Rightarrow> (emit (Error UseValidSemver) (emit (Error (InvalidFormat x)) w), Inl (Exit 1))
         | Some _ \<Rightarrow> (w, Inr x))"
    by (simp add: compute_next_def)
  have np: "semver_parse ''patch'' = None" by code_simp
  have run: "bump_command tk ask (Some ''patch'') dry_run fs =
          apply_version tk cur (version_str (bump_patch v)) dry_run
            \<lparr>content = fs,
             trace = [OpenRead, Info (CurrentVersion cur), Info (BumpingUsing ''patch'')]\<rparr>
        \<and> bump_command tk ask (Some ''vpatch'') dry_run fs =
          (\<lparr>content = fs,
            trace = [OpenRead, Info (CurrentVersion cur), Error (InvalidFormat ''patch''),
                     Error UseValidSemver]\<rparr>,
           Inl (Exit 1))"
    if r: "snd (get_current_version tk \<lparr>content = fs, trace = []\<rparr>) = Inr cur"
      and c: "semver_parse cur = Some v"
  proof -
    have "''vpatch'' \<noteq> []" "''vpatch'' \<notin> set [''patch'', ''minor'', ''major'']" by simp_all
    from bump_command_explicit [OF r c this] np
    have "bump_command tk ask (Some ''vpatch'') dry_run fs =
          (\<lparr>content = fs,
            trace = [OpenRead, Info (CurrentVersion cur), Error (InvalidFormat ''patch''),
                     Error UseValidSemver]\<rparr>,
           Inl (Exit 1))"
      by (simp add: startswith_def)
    with bump_command_keyword(1) [OF r c] show ?thesis by simp
  qed
  from kw ex cn run show ?thesis by blast
qed

theorem keyword_before_strip_witness:
  "snd (get_current_version line_toml \<lparr>content = Some (manifest ''1.0.0''), trace = []\<rparr>)
     = Inr ''1.0.0''
   \<and> semver_parse ''1.0.0''
     = Some \<lparr>major = 1, minor = 0, patch = 0, prerelease = None, build = None\<rparr>
   \<and> bump_command line_toml (\<lambda>m cs. None) (Some ''patch'') True (Some (manifest ''1.0.0''))
     = (\<lparr>content = Some (manifest ''1.0.0''),
         trace = [OpenRead, Info (CurrentVersion ''1.0.0''), Info (BumpingUsing ''patch''),
                  Info (NewVersionWillBe ''1.0.1''), Info DryRunEnabled]\<rparr>,
        Inr ())
   \<and> bump_command line_toml (\<lambda>m cs. None) (Some ''vpatch'') True (Some (manifest ''1.0.0''))
     = (\<lparr>content = Some (manifest ''1.0.0''),
         trace = [OpenRead, Info (CurrentVersion ''1.0.0''), Error (InvalidFormat ''patch''),
                  Error UseValidSemver]\<rparr>,
        Inl (Exit 1))
   \<and> select_target (\<lambda>m cs. None) (Some ''v2.0.0'') ''1.0.0''
        \<lparr>major = 1, minor = 0, patch = 0, prerelease = None, build = None\<rparr>
        \<lparr>content = None, trace = []\<rparr>
     = (\<lparr>content = None, trace = []\<rparr>, Inr ([], ''2.0.0''))"
proof -
  let ?v = "\<lparr>major = 1, minor = 0, patch = 0, prerelease = None, build = None\<rparr>"
  have rd: "snd (get_current_version line_toml \<lparr>content = Some (manifest ''1.0.0''), trace = []\<rparr>)
     = Inr ''1.0.0''"
    by code_simp
  have cur: "semver_parse ''1.0.0'' = Some ?v" by code_simp
  have str: "version_str (bump_patch ?v) = ''1.0.1''" by code_simp
  have arg: "''v2.0.0'' \<noteq> [] \<and> ''v2.0.0'' \<notin> set [''patch'', ''minor'', ''major'']" by simp
  note t1 = keyword_before_strip [where tk = line_toml and fs = "Some (manifest ''1.0.0'')"
      and cur = "''1.0.0''" and v = ?v and ask = "\<lambda>m cs. None" and dry_run = True,
      THEN conjunct2, THEN conjunct2, THEN conjunct2, THEN conjunct2, THEN conjunct2, THEN mp]
  note t2 = keyword_before_strip [where s = "''v2.0.0''" and cur = "''1.0.0''" and v = ?v
      and ask = "\<lambda>m cs. None" and w = "\<lparr>content = None, trace = []\<rparr>",
      THEN conjunct2, THEN conjunct2, THEN conjunct2, THEN conjunct1, THEN mp, OF arg]
  from t1 rd cur
  have a: "bump_command line_toml (\<lambda>m cs. None) (Some ''patch'') True (Some (manifest ''1.0.0''))
     = apply_version line_toml ''1.0.0'' (version_str (bump_patch ?v)) True
            \<lparr>content = Some (manifest ''1.0.0''),
             trace = [OpenRead, Info (CurrentVersion ''1.0.0''), Info (BumpingUsing ''patch'')]\<rparr>"
    and b: "bump_command line_toml (\<lambda>m cs. None) (Some ''vpatch'') True (Some (manifest ''1.0.0''))
     = (\<lparr>content = Some (manifest ''1.0.0''),
         trace = [OpenRead, Info (CurrentVersion ''1.0.0''), Error (InvalidFormat ''patch''),
                  Error UseValidSemver]\<rparr>,
        Inl (Exit 1))"
    by blast+
  from t2 have c: "select_target (\<lambda>m cs. None) (Some ''v2.0.0'') ''1.0.0'' ?v
        \<lparr>content = None, trace = []\<rparr>
     = (\<lparr>content = None, trace = []\<rparr>, Inr ([], ''2.0.0''))"
    by (simp add: startswith_def)
  from a b c rd cur str show ?thesis
    by (simp add: apply_version_dry_run emit_def)
qed

end
